theory Spec2Isabelle
  imports Main "HOL-Library.Sublist"
begin

section \<open>Quality profiles (main.ts, interface Quality)\<close>

text \<open>
  The interface \<^verbatim>\<open>Quality\<close> declares seven fields, all of type \<^verbatim>\<open>string\<close>.
  A string is a list of code units; one \<^typ>\<open>char\<close> stands for one code unit in
  the range 0 to 255.  The only falsy string is the empty one, so the test
  \<^verbatim>\<open>!q.resolution\<close> of line 109 is \<open>resolution q = []\<close>.
\<close>

record Quality =
  resolution :: string
  bitrate :: string
  maxrate :: string
  bufsize :: string
  file' :: string
  name :: string
  segments :: string

text \<open>The built-in ladder of lines 90 to 104, in the order of the source.\<close>

definition defaultQuality :: "Quality list" where
  "defaultQuality =
   [ \<lparr>resolution = ''120x68'', bitrate = ''100k'', maxrate = ''107k'', bufsize = ''150k'',
      file' = ''120p.m3u8'', name = ''120'', segments = ''120p_%03d.ts''\<rparr>,
     \<lparr>resolution = ''160x90'', bitrate = ''150k'', maxrate = ''160k'', bufsize = ''200k'',
      file' = ''160p.m3u8'', name = ''160'', segments = ''160p_%03d.ts''\<rparr>,
     \<lparr>resolution = ''240x135'', bitrate = ''200k'', maxrate = ''214k'', bufsize = ''300k'',
      file' = ''240p.m3u8'', name = ''240'', segments = ''240p_%03d.ts''\<rparr>,
     \<lparr>resolution = ''320x180'', bitrate = ''350k'', maxrate = ''375k'', bufsize = ''500k'',
      file' = ''180p.m3u8'', name = ''180'', segments = ''180p_%03d.ts''\<rparr>,
     \<lparr>resolution = ''426x240'', bitrate = ''400k'', maxrate = ''428k'', bufsize = ''600k'',
      file' = ''240p_wide.m3u8'', name = ''240w'', segments = ''240pw_%03d.ts''\<rparr>,
     \<lparr>resolution = ''480x270'', bitrate = ''500k'', maxrate = ''535k'', bufsize = ''750k'',
      file' = ''270p.m3u8'', name = ''270'', segments = ''270p_%03d.ts''\<rparr>,
     \<lparr>resolution = ''640x360'', bitrate = ''800k'', maxrate = ''856k'', bufsize = ''1200k'',
      file' = ''360p.m3u8'', name = ''360'', segments = ''360p_%03d.ts''\<rparr>,
     \<lparr>resolution = ''854x480'', bitrate = ''1400k'', maxrate = ''1498k'', bufsize = ''2100k'',
      file' = ''480p.m3u8'', name = ''480'', segments = ''480p_%03d.ts''\<rparr>,
     \<lparr>resolution = ''960x540'', bitrate = ''2000k'', maxrate = ''2140k'', bufsize = ''3000k'',
      file' = ''540p.m3u8'', name = ''540'', segments = ''540p_%03d.ts''\<rparr>,
     \<lparr>resolution = ''1280x720'', bitrate = ''2800k'', maxrate = ''2996k'', bufsize = ''4200k'',
      file' = ''720p.m3u8'', name = ''720'', segments = ''720p_%03d.ts''\<rparr>,
     \<lparr>resolution = ''1920x1080'', bitrate = ''5000k'', maxrate = ''5350k'', bufsize = ''7500k'',
      file' = ''1080p.m3u8'', name = ''1080'', segments = ''1080p_%03d.ts''\<rparr>,
     \<lparr>resolution = ''2560x1440'', bitrate = ''8000k'', maxrate = ''8560k'', bufsize = ''12000k'',
      file' = ''1440p.m3u8'', name = ''1440'', segments = ''1440p_%03d.ts''\<rparr>,
     \<lparr>resolution = ''3840x2160'', bitrate = ''14000k'', maxrate = ''14980k'', bufsize = ''21000k'',
      file' = ''2160p.m3u8'', name = ''2160'', segments = ''2160p_%03d.ts''\<rparr> ]"

text \<open>
  Lines 84 to 105: the local \<^verbatim>\<open>quality\<close> starts as the empty array and receives
  the built-in ladder when \<^verbatim>\<open>qualityArray\<close> is absent (\<open>None\<close>) or has length 0.
  No branch assigns \<^verbatim>\<open>qualityArray\<close> to it, so with a non-empty
  \<^verbatim>\<open>qualityArray\<close> it stays empty.  Of \<^verbatim>\<open>qualityArray\<close> only the length is
  read, never a slot.
\<close>

definition initialQuality :: "Quality list option \<Rightarrow> Quality list" where
  "initialQuality qualityArray =
     (case qualityArray of
        None \<Rightarrow> defaultQuality
      | Some qa \<Rightarrow> if length qa = 0 then defaultQuality else [])"

text \<open>The condition of line 109: some field of the profile is falsy.\<close>

definition missingField :: "Quality \<Rightarrow> bool" where
  "missingField q \<longleftrightarrow>
     resolution q = [] \<or> bitrate q = [] \<or> maxrate q = [] \<or> bufsize q = [] \<or>
     file' q = [] \<or> name q = [] \<or> segments q = []"


section \<open>Errors\<close>

text \<open>
  Every rejection and every throw of \<^verbatim>\<open>hlsConvert\<close> rejects the promise the
  function returns.  One constructor stands for each kind of failure:
  \<^item> \<open>InvalidProfile\<close>: the rejection built at line 110;
  \<^item> \<open>InvalidRequest m\<close>: the rejections of lines 122 and 126 and the errors thrown at
    lines 132 and 135, with their message \<open>m\<close>;
  \<^item> \<open>EmptySelection\<close>: the rejection of line 145;
  \<^item> \<open>MissingFileName\<close>: the rejection of line 148;
  \<^item> \<open>SourceNotFound p\<close>: the rejection of line 153 for the input path \<open>p\<close>;
  \<^item> \<open>IOFailure p\<close>: \<^verbatim>\<open>mkdirSync\<close> or \<^verbatim>\<open>writeFileSync\<close> throwing on the path \<open>p\<close>;
  \<^item> \<open>EncodeFailure\<close>: a job rejecting at line 221.
  One more constructor stands for a promise that is never settled: \<open>NeverSettled\<close>, when
  the process ends on an unhandled rejection while the function waits at line 166.
\<close>

datatype error =
    InvalidProfile
  | InvalidRequest string
  | EmptySelection
  | MissingFileName
  | SourceNotFound string
  | IOFailure string
  | EncodeFailure
  | NeverSettled

text \<open>
  The text of the \<^verbatim>\<open>message\<close> property where the source writes it; the message
  of a file-system or ffmpeg error comes from outside.
\<close>

fun message :: "error \<Rightarrow> string option" where
  "message InvalidProfile =
     Some ''Each quality object must have resolution, bitrate, maxrate, bufsize, file, name, and segments properties.''"
| "message (InvalidRequest m) = Some m"
| "message EmptySelection = Some ''No valid resolutions provided for conversion.''"
| "message MissingFileName = Some ''Input file name is required.''"
| "message (SourceNotFound p) = Some (''Input file does not exist: '' @ p)"
| "message (IOFailure p) = None"
| "message EncodeFailure = None"
| "message NeverSettled = None"


section \<open>Numbers and their text\<close>

text \<open>
  The numbers that occur are the result of \<^verbatim>\<open>parseInt\<close> and its product with 1000:
  an integer or NaN.  Integers are kept exact; the embedding agrees with the
  double-precision arithmetic of the source as long as the absolute value stays
  below \<open>2 ^ 53\<close>, and the theorems that depend on a value say so.
\<close>

datatype number = Num int | NaN

fun times :: "number \<Rightarrow> int \<Rightarrow> number" where
  "times (Num i) k = Num (i * k)"
| "times NaN k = NaN"

definition digitChar :: "nat \<Rightarrow> char" where
  "digitChar d = ''0123456789'' ! d"

fun decimal :: "nat \<Rightarrow> string" where
  "decimal n = (if n < 10 then [digitChar n] else decimal (n div 10) @ [digitChar (n mod 10)])"

declare decimal.simps [simp del]

text \<open>Number to string, as a template literal does it (\<open>-0\<close> prints as \<open>0\<close>).\<close>

fun numberToString :: "number \<Rightarrow> string" where
  "numberToString NaN = ''NaN''"
| "numberToString (Num i) = (if i < 0 then ''-'' @ decimal (nat (- i)) else decimal (nat i))"

text \<open>
  The value of a character as a digit: 0 to 9 for the decimal digits, 10 to 15 for
  the letters a to f in either case, 36 (no digit in any radix) otherwise.
\<close>

definition digitValue :: "char \<Rightarrow> nat" where
  "digitValue c =
     (let u = (of_char c :: nat) in
      if 48 \<le> u \<and> u \<le> 57 then u - 48
      else if 97 \<le> u \<and> u \<le> 102 then u - 87
      else if 65 \<le> u \<and> u \<le> 70 then u - 55
      else 36)"

definition isDigit :: "nat \<Rightarrow> char \<Rightarrow> bool" where
  "isDigit R c \<longleftrightarrow> digitValue c < R"

definition digitsValue :: "nat \<Rightarrow> string \<Rightarrow> nat" where
  "digitsValue R Z = foldl (\<lambda>a c. a * R + digitValue c) 0 Z"

text \<open>
  White space that \<^verbatim>\<open>parseInt\<close> skips, among the code units 0 to 255: TAB, LF, VT,
  FF, CR, SP and NBSP.
\<close>

definition isWhiteSpace :: "char \<Rightarrow> bool" where
  "isWhiteSpace c \<longleftrightarrow>
     c = CHR 0x09 \<or> c = CHR 0x0A \<or> c = CHR 0x0B \<or> c = CHR 0x0C \<or> c = CHR 0x0D \<or>
     c = CHR 0x20 \<or> c = CHR 0xA0"

text \<open>
  \<^verbatim>\<open>parseInt(string)\<close> with no radix: leading white space is dropped, one sign is
  read, a prefix \<^verbatim>\<open>0x\<close> or \<^verbatim>\<open>0X\<close> selects radix 16 (radix 10 otherwise), and
  the longest run of digits of that radix is the numeral; what follows it is ignored.
  With no digit the result is NaN.  \<open>unsignedPart\<close> is the string after the white
  space and the sign.
\<close>

definition unsignedPart :: "string \<Rightarrow> string" where
  "unsignedPart string =
     (let S = dropWhile isWhiteSpace string
      in if S \<noteq> [] \<and> (hd S = CHR ''+'' \<or> hd S = CHR ''-'') then tl S else S)"

definition hexPrefix :: "string \<Rightarrow> bool" where
  "hexPrefix S \<longleftrightarrow> take 2 S = ''0x'' \<or> take 2 S = ''0X''"

definition parseInt :: "string \<Rightarrow> number" where
  "parseInt string =
     (let S = dropWhile isWhiteSpace string;
          sign = (if S \<noteq> [] \<and> hd S = CHR ''-'' then - 1 else 1);
          S1 = unsignedPart string;
          R = (if hexPrefix S1 then 16 else 10);
          S2 = (if hexPrefix S1 then drop 2 S1 else S1);
          Z = takeWhile (isDigit R) S2
      in if Z = [] then NaN else Num (sign * int (digitsValue R Z)))"


section \<open>Subset resolution (lines 114 to 146)\<close>

text \<open>
  \<^verbatim>\<open>resolutionArray\<close> is declared as an array of strings, and the code tests at run
  time that each element is one: an element is a value of the language.
\<close>

datatype js_value = JString string | JNumber int | JBoolean bool | JNull | JUndefined

fun isString :: "js_value \<Rightarrow> bool" where
  "isString (JString s) = True"
| "isString v = False"

fun toString :: "js_value \<Rightarrow> string" where
  "toString (JString s) = s"
| "toString (JNumber i) = numberToString (Num i)"
| "toString (JBoolean b) = (if b then ''true'' else ''false'')"
| "toString JNull = ''null''"
| "toString JUndefined = ''undefined''"

text \<open>\<^verbatim>\<open>Array.prototype.join\<close> on an array of strings.\<close>

fun join :: "string \<Rightarrow> string list \<Rightarrow> string" where
  "join sep [] = []"
| "join sep [x] = x"
| "join sep (x # y # ys) = x @ sep @ join sep (y # ys)"

text \<open>
  An array may be sparse: a slot of it holds an element or is a hole.  The length counts
  every slot; \<^verbatim>\<open>some\<close> and \<^verbatim>\<open>forEach\<close> visit the elements and skip the holes
  (\<open>items\<close>); \<^verbatim>\<open>includes\<close> reads a hole as \<^verbatim>\<open>undefined\<close> (\<open>readSlot\<close>).
\<close>

datatype slot = Hole | Item js_value

fun items :: "slot list \<Rightarrow> js_value list" where
  "items [] = []"
| "items (Hole # xs) = items xs"
| "items (Item v # xs) = v # items xs"

fun readSlot :: "slot \<Rightarrow> js_value" where
  "readSlot Hole = JUndefined"
| "readSlot (Item v) = v"

text \<open>Line 116.\<close>

definition defaultResolution :: "slot list" where
  "defaultResolution =
     [Item (JString ''120''), Item (JString ''240''), Item (JString ''360''),
      Item (JString ''480''), Item (JString ''720'')]"

text \<open>
  Lines 116 to 119.  \<open>None\<close> is an argument that is absent or not an array; an array
  of length 0 leaves the default in place as well.
\<close>

definition chooseResolution :: "slot list option \<Rightarrow> slot list" where
  "chooseResolution resolutionArray =
     (case resolutionArray of
        None \<Rightarrow> defaultResolution
      | Some ra \<Rightarrow> if length ra > 0 then ra else defaultResolution)"

text \<open>The messages of lines 132 and 135.\<close>

definition notAStringMessage :: "js_value \<Rightarrow> string" where
  "notAStringMessage res = ''Invalid resolution name: '' @ toString res @ ''. It should be a string.''"

definition noMatchMessage :: "Quality list \<Rightarrow> string \<Rightarrow> string" where
  "noMatchMessage quality res =
     ''Invalid resolution name: '' @ res @
     ''. It does not match any quality name. Valid names are '' @
     join '', '' (map name quality) @ ''.''"

text \<open>
  Lines 130 to 137: the \<^verbatim>\<open>forEach\<close> over the elements of the request, in request
  order; the first throw ends it.
\<close>

fun checkNames :: "Quality list \<Rightarrow> js_value list \<Rightarrow> error + unit" where
  "checkNames quality [] = Inr ()"
| "checkNames quality (res # rest) =
     (if \<not> isString res then Inl (InvalidRequest (notAStringMessage res))
      else if \<not> list_ex (\<lambda>q. JString (name q) = res) quality
        then Inl (InvalidRequest (noMatchMessage quality (toString res)))
      else checkNames quality rest)"

text \<open>Lines 114 to 146, with the catalog \<^verbatim>\<open>quality\<close> as it stands after line 105.\<close>

definition resolveQuality :: "Quality list \<Rightarrow> slot list option \<Rightarrow> error + Quality list" where
  "resolveQuality quality resolutionArray =
     (let requested = chooseResolution resolutionArray in
      if length requested = 0
        then Inl (InvalidRequest ''Invalid resolution array provided. It should be an array of strings.'')
      else if list_ex (\<lambda>res. \<not> isString res) (items requested)
        then Inl (InvalidRequest ''All elements in the resolution array must be strings.'')
      else case checkNames quality (items requested) of
             Inl e \<Rightarrow> Inl e
           | Inr u \<Rightarrow>
               let finalQuality =
                     filter (\<lambda>q. JString (name q) \<in> set (map readSlot requested)) quality in
               if length finalQuality = 0 then Inl EmptySelection else Inr finalQuality)"


section \<open>The master playlist (lines 228 to 234)\<close>

definition streamInf :: "Quality \<Rightarrow> string" where
  "streamInf q =
     ''#EXT-X-STREAM-INF:BANDWIDTH='' @ numberToString (times (parseInt (bitrate q)) 1000) @
     '',RESOLUTION='' @ resolution q"

definition masterPlaylistContent :: "Quality list \<Rightarrow> string" where
  "masterPlaylistContent finalQuality =
     join [CHR 0x0A] (map (\<lambda>q. streamInf q @ [CHR 0x0A] @ file' q) finalQuality)"

definition masterPlaylistHeader :: string where
  "masterPlaylistHeader = ''#EXTM3U'' @ [CHR 0x0A]"

definition masterPlaylist :: "Quality list \<Rightarrow> string" where
  "masterPlaylist finalQuality = masterPlaylistHeader @ masterPlaylistContent finalQuality"


section \<open>The conversion (hlsConvert, lines 73 to 241)\<close>

text \<open>
  The file system as the function sees it: the paths that exist and the text of the
  files written with \<^verbatim>\<open>writeFileSync\<close>.
\<close>

record FileSystem =
  existing :: "string set"
  written :: "string \<rightharpoonup> string"

text \<open>
  What the function takes from outside: \<^verbatim>\<open>path.join\<close>, the identifier that
  \<^verbatim>\<open>uuidv4()\<close> returns in this call, for each profile whether its ffmpeg job ends
  (\<^verbatim>\<open>'end'\<close>) or fails (\<^verbatim>\<open>'error'\<close>), the paths on which
  \<^verbatim>\<open>mkdirSync\<close> and \<^verbatim>\<open>writeFileSync\<close> throw, and whether the process ends on an
  unhandled rejection (the default of Node since version 15; the README asks for
  Node 18 or later) or goes on (a handler is installed, or Node runs with
  \<^verbatim>\<open>--unhandled-rejections=warn\<close>).
\<close>

record Platform =
  pathJoin :: "string \<Rightarrow> string \<Rightarrow> string"
  uuidv4 :: string
  ffmpegEnds :: "Quality \<Rightarrow> bool"
  denied :: "string set"
  exitsOnUnhandledRejection :: bool

text \<open>
  The instance.  \<^verbatim>\<open>inputVideoCleanUp\<close> is \<^verbatim>\<open>false\<close> (\<open>None\<close>) or a string.
\<close>

record VideoConverter =
  inputFolder :: string
  outputPath :: string
  inputVideoCleanUp :: "string option"

text \<open>Lines 31 to 45; \<^verbatim>\<open>outputPath\<close> defaults to \<^verbatim>\<open>"output"\<close>.\<close>

definition newVideoConverter :: "string \<Rightarrow> string option \<Rightarrow> string option \<Rightarrow> VideoConverter" where
  "newVideoConverter folder out cleanUp =
     \<lparr>inputFolder = folder,
      outputPath = (case out of None \<Rightarrow> ''output'' | Some p \<Rightarrow> p),
      inputVideoCleanUp = cleanUp\<rparr>"

text \<open>
  What a call leaves behind: how the promise settles, the file system afterwards, the
  profiles for which an ffmpeg job was started, and the rejections that line 110 built
  inside the \<^verbatim>\<open>forEach\<close> callback, whose return value \<^verbatim>\<open>forEach\<close> discards.
  Nothing handles such a rejection.  Node reports it once the synchronous part of the
  call is over, that is after the promise was rejected by a failed validation or when
  the function waits for the jobs at line 166; where the process ends on it, no job
  reaches its \<^verbatim>\<open>'end'\<close> handler and line 234 is never run.
\<close>

record Run =
  outcome :: "error + unit"
  fileSystem :: FileSystem
  launched :: "Quality list"
  discarded :: "error list"

text \<open>Lines 108 to 112.\<close>

definition checkFields :: "Quality list \<Rightarrow> error list" where
  "checkFields quality = map (\<lambda>q. InvalidProfile) (filter missingField quality)"

text \<open>Lines 155 to 157 and 161 to 163: create the directory unless it exists.\<close>

definition ensureDir :: "Platform \<Rightarrow> string \<Rightarrow> FileSystem \<Rightarrow> error + FileSystem" where
  "ensureDir pf p fs =
     (if p \<in> existing fs then Inr fs
      else if p \<in> denied pf then Inl (IOFailure p)
      else Inr (fs\<lparr>existing := insert p (existing fs)\<rparr>))"

definition writeFileSync :: "Platform \<Rightarrow> string \<Rightarrow> string \<Rightarrow> FileSystem \<Rightarrow> error + FileSystem" where
  "writeFileSync pf p text fs =
     (if p \<in> denied pf then Inl (IOFailure p)
      else Inr (fs\<lparr>existing := insert p (existing fs), written := (written fs)(p \<mapsto> text)\<rparr>))"

text \<open>
  Lines 203 to 218: each job that ends deletes the input when \<^verbatim>\<open>inputVideoCleanUp\<close>
  is truthy (a non-empty string); a failing \<^verbatim>\<open>unlinkSync\<close> is caught.
\<close>

definition cleanUp :: "Platform \<Rightarrow> VideoConverter \<Rightarrow> string \<Rightarrow> Quality list \<Rightarrow> FileSystem \<Rightarrow> FileSystem" where
  "cleanUp pf this inputPath finalQuality fs =
     (if (case inputVideoCleanUp this of None \<Rightarrow> False | Some s \<Rightarrow> s \<noteq> []) \<and>
         list_ex (ffmpegEnds pf) finalQuality
      then fs\<lparr>existing := existing fs - {inputPath}\<rparr> else fs)"

text \<open>Line 160: the directory of this run; an empty \<^verbatim>\<open>video_id\<close> is falsy.\<close>

definition uniqueOutputPath :: "Platform \<Rightarrow> VideoConverter \<Rightarrow> string option \<Rightarrow> string" where
  "uniqueOutputPath pf this video_id =
     pathJoin pf (outputPath this)
       (case video_id of
          None \<Rightarrow> uuidv4 pf
        | Some v \<Rightarrow> if v \<noteq> [] then v else uuidv4 pf)"

text \<open>Line 229.\<close>

definition masterPlaylistPath :: "Platform \<Rightarrow> VideoConverter \<Rightarrow> string option \<Rightarrow> string" where
  "masterPlaylistPath pf this video_id =
     pathJoin pf (uniqueOutputPath pf this video_id) ''master.m3u8''"

text \<open>
  Lines 107 to 237, for the catalog \<^verbatim>\<open>quality\<close> as it stands after line 105.  The
  progress callback and the console output are left out; the files that ffmpeg itself
  writes are not tracked.  A call that fails before line 166 has started no job.  At
  line 166 the jobs are started and the function waits; with a discarded rejection on
  a platform that ends on it, the file system stays as the directories were made and
  the promise is never settled.
\<close>

definition stopped :: "error list \<Rightarrow> error \<Rightarrow> FileSystem \<Rightarrow> Run" where
  "stopped dropped e fs = \<lparr>outcome = Inl e, fileSystem = fs, launched = [], discarded = dropped\<rparr>"

definition convertWith ::
  "Quality list \<Rightarrow> Platform \<Rightarrow> VideoConverter \<Rightarrow> FileSystem \<Rightarrow>
   string \<Rightarrow> slot list option \<Rightarrow> string option \<Rightarrow> Run" where
  "convertWith quality pf this fs inputFileName resolutionArray video_id =
     (let dropped = checkFields quality in
      case resolveQuality quality resolutionArray of
        Inl e \<Rightarrow> stopped dropped e fs
      | Inr finalQuality \<Rightarrow>
          if inputFileName = [] then stopped dropped MissingFileName fs
          else
            let inputPath = pathJoin pf (inputFolder this) inputFileName in
            if inputPath \<notin> existing fs then stopped dropped (SourceNotFound inputPath) fs
            else
              case ensureDir pf (outputPath this) fs of
                Inl e \<Rightarrow> stopped dropped e fs
              | Inr fs1 \<Rightarrow>
                  case ensureDir pf (uniqueOutputPath pf this video_id) fs1 of
                    Inl e \<Rightarrow> stopped dropped e fs1
                  | Inr fs2 \<Rightarrow>
                      if dropped \<noteq> [] \<and> exitsOnUnhandledRejection pf
                        then \<lparr>outcome = Inl NeverSettled, fileSystem = fs2,
                              launched = finalQuality, discarded = dropped\<rparr>
                      else
                      let fs3 = cleanUp pf this inputPath finalQuality fs2 in
                      if \<not> list_all (ffmpegEnds pf) finalQuality
                        then \<lparr>outcome = Inl EncodeFailure, fileSystem = fs3,
                              launched = finalQuality, discarded = dropped\<rparr>
                      else
                        case writeFileSync pf (masterPlaylistPath pf this video_id)
                               (masterPlaylist finalQuality) fs3 of
                          Inl e \<Rightarrow> \<lparr>outcome = Inl e, fileSystem = fs3,
                                    launched = finalQuality, discarded = dropped\<rparr>
                        | Inr fs4 \<Rightarrow> \<lparr>outcome = Inr (), fileSystem = fs4,
                                      launched = finalQuality, discarded = dropped\<rparr>)"

text \<open>The whole of \<^verbatim>\<open>hlsConvert\<close>: lines 84 to 105, then the rest.\<close>

definition hlsConvert ::
  "Platform \<Rightarrow> VideoConverter \<Rightarrow> FileSystem \<Rightarrow>
   string \<Rightarrow> slot list option \<Rightarrow> string option \<Rightarrow> Quality list option \<Rightarrow> Run" where
  "hlsConvert pf this fs inputFileName resolutionArray video_id qualityArray =
     convertWith (initialQuality qualityArray) pf this fs inputFileName resolutionArray video_id"



section \<open>Examples used below\<close>

text \<open>
  A platform whose \<^verbatim>\<open>path.join\<close> puts a slash between its arguments, where every
  job ends, nothing is denied and the process ends on an unhandled rejection; the
  converter and the custom catalog of the README;
  a file system that holds the input video.
\<close>

definition examplePlatform :: Platform where
  "examplePlatform =
     \<lparr>pathJoin = (\<lambda>a b. a @ ''/'' @ b), uuidv4 = ''run-1'',
      ffmpegEnds = (\<lambda>q. True), denied = {}, exitsOnUnhandledRejection = True\<rparr>"

definition exampleConverter :: VideoConverter where
  "exampleConverter = newVideoConverter ''video'' None None"

definition exampleFiles :: FileSystem where
  "exampleFiles = \<lparr>existing = {''video/input.mp4''}, written = Map.empty\<rparr>"

definition customQualities :: "Quality list" where
  "customQualities =
     [\<lparr>resolution = ''640x360'', bitrate = ''800k'', maxrate = ''856k'', bufsize = ''1200k'',
       file' = ''360p.m3u8'', name = ''360'', segments = ''360p_%03d.ts''\<rparr>]"

text \<open>
  Three more catalogs: two profiles that share the name 360; a profile whose bit rate
  is the empty string; a profile whose bit rate is a word.
\<close>

definition twoProfilesOneName :: "Quality list" where
  "twoProfilesOneName =
     [\<lparr>resolution = ''640x360'', bitrate = ''800k'', maxrate = ''856k'', bufsize = ''1200k'',
       file' = ''360p.m3u8'', name = ''360'', segments = ''360p_%03d.ts''\<rparr>,
      \<lparr>resolution = ''1280x720'', bitrate = ''2800k'', maxrate = ''2996k'', bufsize = ''4200k'',
       file' = ''720p.m3u8'', name = ''360'', segments = ''720p_%03d.ts''\<rparr>]"

definition emptyBitrate :: "Quality list" where
  "emptyBitrate =
     [\<lparr>resolution = ''640x360'', bitrate = [], maxrate = ''856k'', bufsize = ''1200k'',
       file' = ''360p.m3u8'', name = ''360'', segments = ''360p_%03d.ts''\<rparr>]"

definition wordBitrate :: "Quality list" where
  "wordBitrate =
     [\<lparr>resolution = ''640x360'', bitrate = ''high'', maxrate = ''856k'', bufsize = ''1200k'',
       file' = ''360p.m3u8'', name = ''360'', segments = ''360p_%03d.ts''\<rparr>]"


section \<open>Kilobit notation\<close>

text \<open>
  The bit rates of the profiles are written in kilobits: decimal digits followed by the
  letter k.  \<open>kilobitNotation b\<close> is the number the digits write, when \<open>b\<close> has this
  form.
\<close>

definition kilobitNotation :: "string \<Rightarrow> nat option" where
  "kilobitNotation b =
     (if b \<noteq> [] \<and> last b = CHR ''k'' \<and> butlast b \<noteq> [] \<and> list_all (isDigit 10) (butlast b)
      then Some (digitsValue 10 (butlast b)) else None)"


section \<open>Facts about subset resolution\<close>

lemma chooseResolution_nonempty: "chooseResolution ra \<noteq> []"
  by (auto simp: chooseResolution_def defaultResolution_def split: option.splits)

lemma items_set: "(v \<in> set (items xs)) = (Item v \<in> set xs)"
  by (induction xs rule: items.induct) auto

lemma readSlot_string: "(JString s \<in> readSlot ` set xs) = (JString s \<in> set (items xs))"
  by (induction xs rule: items.induct) auto

lemma items_empty: "(items xs = []) = (\<forall>x\<in>set xs. x = Hole)"
  by (induction xs rule: items.induct) auto

lemma items_chosen_empty:
  "(items (chooseResolution ra) = []) = (\<exists>hs. ra = Some hs \<and> hs \<noteq> [] \<and> (\<forall>x\<in>set hs. x = Hole))"
  by (auto simp: chooseResolution_def defaultResolution_def items_empty split: option.splits)

lemma checkNames_matched:
  "list_all isString names \<Longrightarrow>
   (checkNames quality names = Inr ()) = (\<forall>r\<in>set names. \<exists>q\<in>set quality. JString (name q) = r)"
  by (induction names) (auto simp: list_ex_iff)

lemma checkNames_Inr:
  "checkNames quality names = Inr () \<Longrightarrow>
   list_all isString names \<and> (\<forall>r\<in>set names. \<exists>q\<in>set quality. JString (name q) = r)"
  by (induction names) (auto simp: list_ex_iff split: if_splits)

lemma checkNames_first_unmatched:
  "list_all isString names \<Longrightarrow> \<exists>r\<in>set names. \<forall>q\<in>set quality. JString (name q) \<noteq> r \<Longrightarrow>
   \<exists>pre s post. names = pre @ JString s # post \<and>
      (\<forall>r\<in>set pre. \<exists>q\<in>set quality. JString (name q) = r) \<and>
      s \<notin> name ` set quality \<and>
      checkNames quality names = Inl (InvalidRequest (noMatchMessage quality s))"
proof (induction names)
  case Nil
  then show ?case by simp
next
  case (Cons r rest)
  from Cons.prems(1) obtain s where r: "r = JString s" by (cases r) auto
  show ?case
  proof (cases "\<exists>q\<in>set quality. name q = s")
    case False
    then have "checkNames quality (r # rest) = Inl (InvalidRequest (noMatchMessage quality s))"
      using r by (auto simp: list_ex_iff)
    moreover have "s \<notin> name ` set quality" using False by auto
    ultimately show ?thesis using r by (intro exI[of _ "[]"] exI[of _ s] exI[of _ rest]) simp
  next
    case True
    then have step: "checkNames quality (r # rest) = checkNames quality rest"
      using r by (auto simp: list_ex_iff)
    from True Cons.prems(2) r have "\<exists>r\<in>set rest. \<forall>q\<in>set quality. JString (name q) \<noteq> r" by auto
    with Cons.IH Cons.prems(1) obtain pre s' post where
      h: "rest = pre @ JString s' # post" "\<forall>r\<in>set pre. \<exists>q\<in>set quality. JString (name q) = r"
         "s' \<notin> name ` set quality" "checkNames quality rest = Inl (InvalidRequest (noMatchMessage quality s'))"
      by auto
    show ?thesis
      using h step True r
      by (intro exI[of _ "r # pre"] exI[of _ s'] exI[of _ post]) auto
  qed
qed

lemma filter_nonempty:
  "items names \<noteq> [] \<Longrightarrow> \<forall>r\<in>set (items names). \<exists>q\<in>set quality. JString (name q) = r \<Longrightarrow>
   filter (\<lambda>q. JString (name q) \<in> set (map readSlot names)) quality \<noteq> []"
  by (cases "items names") (auto simp: filter_empty_conv readSlot_string)

lemma filter_holes:
  "items names = [] \<Longrightarrow> filter (\<lambda>q. JString (name q) \<in> set (map readSlot names)) quality = []"
  by (simp add: filter_empty_conv readSlot_string)


lemma resolveQuality_matched:
  assumes "list_all isString (items (chooseResolution ra))"
    and "\<forall>r\<in>set (items (chooseResolution ra)). \<exists>q\<in>set quality. JString (name q) = r"
    and "items (chooseResolution ra) \<noteq> []"
  shows "resolveQuality quality ra =
    Inr (filter (\<lambda>q. JString (name q) \<in> set (map readSlot (chooseResolution ra))) quality)"
proof -
  have ck: "checkNames quality (items (chooseResolution ra)) = Inr ()"
    using assms by (simp add: checkNames_matched)
  have ne: "filter (\<lambda>q. JString (name q) \<in> set (map readSlot (chooseResolution ra))) quality \<noteq> []"
    using filter_nonempty[OF assms(3) assms(2)] .
  have "\<not> list_ex (\<lambda>res. \<not> isString res) (items (chooseResolution ra))"
    using assms(1) by (simp add: list_ex_iff list_all_iff)
  then show ?thesis
    using ck ne chooseResolution_nonempty[of ra]
    by (simp add: resolveQuality_def Let_def)
qed

lemma resolveQuality_holes:
  assumes "items (chooseResolution ra) = []"
  shows "resolveQuality quality ra = Inl EmptySelection"
  using assms chooseResolution_nonempty[of ra] filter_holes[OF assms, of quality]
  by (simp add: resolveQuality_def Let_def)

lemma resolveQuality_not_strings:
  "\<not> list_all isString (items (chooseResolution ra)) \<Longrightarrow>
   resolveQuality quality ra = Inl (InvalidRequest ''All elements in the resolution array must be strings.'')"
  by (auto simp: resolveQuality_def Let_def list_ex_iff list_all_iff chooseResolution_nonempty)

lemma resolveQuality_unmatched:
  assumes "list_all isString (items (chooseResolution ra))"
    and "\<exists>r\<in>set (items (chooseResolution ra)). \<forall>q\<in>set quality. JString (name q) \<noteq> r"
  shows "\<exists>pre s post. items (chooseResolution ra) = pre @ JString s # post \<and>
      (\<forall>r\<in>set pre. \<exists>q\<in>set quality. JString (name q) = r) \<and>
      s \<notin> name ` set quality \<and>
      resolveQuality quality ra = Inl (InvalidRequest (noMatchMessage quality s))"
proof -
  from checkNames_first_unmatched[OF assms] obtain pre s post where
    h: "items (chooseResolution ra) = pre @ JString s # post"
       "\<forall>r\<in>set pre. \<exists>q\<in>set quality. JString (name q) = r"
       "s \<notin> name ` set quality"
       "checkNames quality (items (chooseResolution ra)) = Inl (InvalidRequest (noMatchMessage quality s))"
    by blast
  have "resolveQuality quality ra = Inl (InvalidRequest (noMatchMessage quality s))"
    using assms(1) h(4) chooseResolution_nonempty[of ra]
    by (simp add: resolveQuality_def Let_def list_ex_iff list_all_iff)
  with h show ?thesis by blast
qed

lemma resolveQuality_empty_iff:
  "(resolveQuality quality ra = Inl EmptySelection) = (items (chooseResolution ra) = [])"
proof (cases "items (chooseResolution ra) = []")
  case True
  then show ?thesis by (simp add: resolveQuality_holes)
next
  case ne: False
  have "resolveQuality quality ra \<noteq> Inl EmptySelection"
  proof (cases "list_all isString (items (chooseResolution ra))")
    case False
    then show ?thesis by (simp add: resolveQuality_not_strings)
  next
    case True
    show ?thesis
    proof (cases "\<forall>r\<in>set (items (chooseResolution ra)). \<exists>q\<in>set quality. JString (name q) = r")
      case m: True
      show ?thesis by (simp add: resolveQuality_matched[OF True m ne])
    next
      case False
      then have "\<exists>r\<in>set (items (chooseResolution ra)). \<forall>q\<in>set quality. JString (name q) \<noteq> r"
        by blast
      from resolveQuality_unmatched[OF True this] show ?thesis by auto
    qed
  qed
  with ne show ?thesis by simp
qed

lemma checkNames_not_profile: "checkNames quality names \<noteq> Inl InvalidProfile"
  by (induction names) auto

lemma resolveQuality_not_profile: "resolveQuality quality ra \<noteq> Inl InvalidProfile"
  using checkNames_not_profile[of quality "items (chooseResolution ra)"]
  by (auto simp: resolveQuality_def Let_def split: sum.splits if_splits)


section \<open>Facts about numbers\<close>




lemma isDigit_not_space: "isDigit 10 c \<Longrightarrow> \<not> isWhiteSpace c"
  by (auto simp: isDigit_def isWhiteSpace_def digitValue_def Let_def)

lemma isDigit_not_sign: "isDigit 10 c \<Longrightarrow> c \<noteq> CHR ''+'' \<and> c \<noteq> CHR ''-'' \<and> c \<noteq> CHR ''x'' \<and> c \<noteq> CHR ''X''"
  by (auto simp: isDigit_def digitValue_def Let_def)

lemma unsignedPart_digit: "s \<noteq> [] \<Longrightarrow> isDigit 10 (hd s) \<Longrightarrow> unsignedPart s = s"
  by (cases s) (auto simp: unsignedPart_def isDigit_not_space dest: isDigit_not_sign)

lemma parseInt_digits:
  assumes "ds \<noteq> []" "\<forall>c\<in>set ds. isDigit 10 c" "rest = [] \<or> \<not> isDigit 10 (hd rest)"
    and "\<not> hexPrefix (ds @ rest)"
  shows "parseInt (ds @ rest) = Num (int (digitsValue 10 ds))"
proof -
  from assms(1,2) have hd: "isDigit 10 (hd (ds @ rest))" "ds @ rest \<noteq> []" by (cases ds; simp)+
  then have dw: "dropWhile isWhiteSpace (ds @ rest) = ds @ rest"
    by (cases "ds @ rest") (auto simp: isDigit_not_space simp del: append_is_Nil_conv hd_append2)
  have up: "unsignedPart (ds @ rest) = ds @ rest" using unsignedPart_digit hd by blast
  have ns: "hd (ds @ rest) \<noteq> CHR ''-''" using hd(1) isDigit_not_sign by blast
  have r0: "takeWhile (isDigit 10) rest = []"
    using assms(3) by (cases rest) auto
  show ?thesis
    unfolding parseInt_def Let_def dw up
    using assms ns by (simp add: r0 del: hd_append2)
qed


lemma not_hexPrefix_kilobit:
  assumes "ds \<noteq> []" "\<forall>c\<in>set ds. isDigit 10 c"
  shows "\<not> hexPrefix (ds @ ''k'')"
proof (cases ds)
  case Nil
  with assms show ?thesis by simp
next
  case (Cons d ds')
  show ?thesis
  proof (cases ds')
    case Nil
    with Cons show ?thesis by (simp add: hexPrefix_def)
  next
    case (Cons d' ds'')
    with \<open>ds = d # ds'\<close> assms(2) have "isDigit 10 d'" by simp
    then have "d' \<noteq> CHR ''x'' \<and> d' \<noteq> CHR ''X''" using isDigit_not_sign by blast
    with Cons \<open>ds = d # ds'\<close> show ?thesis by (simp add: hexPrefix_def)
  qed
qed

lemma parseInt_kilobit:
  assumes "kilobitNotation b = Some n"
  shows "parseInt b = Num (int n)"
proof -
  from assms have b: "b \<noteq> []" "last b = CHR ''k''" "butlast b \<noteq> []"
    "\<forall>c\<in>set (butlast b). isDigit 10 c" "n = digitsValue 10 (butlast b)"
    by (auto simp: kilobitNotation_def list_all_iff split: if_splits)
  have split: "b = butlast b @ ''k''" using b(1,2) append_butlast_last_id by fastforce
  have nk: "\<not> isDigit 10 (hd ''k'')" by (simp add: isDigit_def digitValue_def)
  have "parseInt (butlast b @ ''k'') = Num (int (digitsValue 10 (butlast b)))"
    using b(3,4) nk not_hexPrefix_kilobit[OF b(3,4)] by (intro parseInt_digits) auto
  with split b(5) show ?thesis by simp
qed


section \<open>Facts about the master playlist\<close>



lemma sublist_join: "x \<in> set xs \<Longrightarrow> sublist x (join sep xs)"
proof (induction sep xs rule: join.induct)
  case (1 sep)
  then show ?case by simp
next
  case (2 sep x')
  then show ?case by simp
next
  case (3 sep a b ys)
  show ?case
  proof (cases "x = a")
    case True
    then show ?thesis by (simp add: sublist_append_rightI prefix_imp_sublist)
  next
    case False
    with 3 have "sublist x (join sep (b # ys))" by simp
    then have "sublist x ((a @ sep) @ join sep (b # ys))" by (simp add: sublist_append)
    then show ?thesis by simp
  qed
qed


lemma streamInf_kilobit:
  assumes "kilobitNotation (bitrate q) = Some n"
  shows "streamInf q =
    ''#EXT-X-STREAM-INF:BANDWIDTH='' @ decimal (n * 1000) @ '',RESOLUTION='' @ resolution q"
proof -
  have "nat (int n * 1000) = n * 1000" by (simp add: nat_mult_distrib)
  then show ?thesis by (simp add: streamInf_def parseInt_kilobit[OF assms])
qed



text \<open>
  Every profile that a call of \<^verbatim>\<open>hlsConvert\<close> can resolve has its bit rate in
  kilobit notation, far below the bound.
\<close>

lemma initialQuality_kilobit:
  assumes "q \<in> set (initialQuality qa)"
  shows "\<exists>n. kilobitNotation (bitrate q) = Some n \<and> n * 1000 < 2 ^ 53"
proof -
  have "\<forall>q\<in>set defaultQuality. \<exists>n. kilobitNotation (bitrate q) = Some n \<and> n * 1000 < 2 ^ 53"
    by (simp add: defaultQuality_def kilobitNotation_def isDigit_def digitValue_def digitsValue_def)
  with assms show ?thesis
    by (auto simp: initialQuality_def split: option.splits if_splits)
qed


section \<open>Facts about the conversion\<close>

lemma outcome_stopped [simp]: "outcome (stopped d e fs) = Inl e"
  and fileSystem_stopped [simp]: "fileSystem (stopped d e fs) = fs"
  and launched_stopped [simp]: "launched (stopped d e fs) = []"
  and discarded_stopped [simp]: "discarded (stopped d e fs) = d"
  by (simp_all add: stopped_def)

lemma checkFields_none: "\<forall>q\<in>set quality. \<not> missingField q \<Longrightarrow> checkFields quality = []"
  by (simp add: checkFields_def filter_empty_conv)


lemma discarded_convertWith: "discarded (convertWith quality pf this fs f ra vid) = checkFields quality"
  by (simp add: convertWith_def Let_def split: sum.splits)

lemma convertWith_unresolved:
  "resolveQuality quality ra = Inl e \<Longrightarrow>
   convertWith quality pf this fs f ra vid = stopped (checkFields quality) e fs"
  by (simp add: convertWith_def)

lemma convertWith_no_file_name:
  "resolveQuality quality ra = Inr fq \<Longrightarrow>
   convertWith quality pf this fs [] ra vid = stopped (checkFields quality) MissingFileName fs"
  by (simp add: convertWith_def)

lemma convertWith_source_missing:
  "resolveQuality quality ra = Inr fq \<Longrightarrow> f \<noteq> [] \<Longrightarrow> pathJoin pf (inputFolder this) f \<notin> existing fs \<Longrightarrow>
   convertWith quality pf this fs f ra vid =
     stopped (checkFields quality) (SourceNotFound (pathJoin pf (inputFolder this) f)) fs"
  by (simp add: convertWith_def)

lemma convertWith_output_denied:
  "resolveQuality quality ra = Inr fq \<Longrightarrow> f \<noteq> [] \<Longrightarrow> pathJoin pf (inputFolder this) f \<in> existing fs \<Longrightarrow>
   outputPath this \<notin> existing fs \<Longrightarrow> outputPath this \<in> denied pf \<Longrightarrow>
   convertWith quality pf this fs f ra vid =
     stopped (checkFields quality) (IOFailure (outputPath this)) fs"
  by (simp add: convertWith_def ensureDir_def)

lemma convertWith_failed_early:
  "pathJoin pf (inputFolder this) f \<notin> existing fs \<Longrightarrow>
   \<exists>e. convertWith quality pf this fs f ra vid = stopped (checkFields quality) e fs"
  by (auto simp: convertWith_def Let_def split: sum.splits)

lemma ensureDir_not_profile: "ensureDir pf p fs \<noteq> Inl InvalidProfile"
  by (simp add: ensureDir_def)

lemma writeFileSync_not_profile: "writeFileSync pf p t fs \<noteq> Inl InvalidProfile"
  by (simp add: writeFileSync_def)

lemma convertWith_not_profile:
  "outcome (convertWith quality pf this fs f ra vid) \<noteq> Inl InvalidProfile"
  using resolveQuality_not_profile[of quality ra]
    ensureDir_not_profile[of pf "outputPath this" fs]
  by (auto simp: convertWith_def Let_def ensureDir_not_profile writeFileSync_not_profile
      split: sum.splits)



section \<open>The custom catalog\<close>

text \<open>
  C1.  The claim: a non-empty \<^verbatim>\<open>qualityArray\<close> replaces the built-in ladder, the
  requested names are resolved against it and its profiles are encoded.  The call of
  the README (custom catalog with the one profile 360, requested names \<^verbatim>\<open>['360']\<close>,
  the input present) is evaluated here: the catalog in effect is empty, the name 360
  matches nothing, and the call is rejected with the list of valid names empty; no job
  is started and nothing is written.
\<close>

theorem readme_custom_catalog_rejected:
  "hlsConvert examplePlatform exampleConverter exampleFiles ''input.mp4''
      (Some [Item (JString ''360'')]) None (Some customQualities) =
   \<lparr>outcome = Inl (InvalidRequest
        ''Invalid resolution name: 360. It does not match any quality name. Valid names are .''),
    fileSystem = exampleFiles, launched = [], discarded = []\<rparr>"
  by (simp add: hlsConvert_def convertWith_def initialQuality_def customQualities_def
      resolveQuality_def chooseResolution_def noMatchMessage_def stopped_def checkFields_def)


section \<open>The default subset\<close>

text \<open>
  C8.  When the requested names are absent or an empty array, subset resolution
  against the built-in ladder returns exactly the five profiles named 120, 240, 360,
  480 and 720, in the order of the ladder.
\<close>

theorem default_subset:
  "resolveQuality defaultQuality None =
     Inr [ \<lparr>resolution = ''120x68'', bitrate = ''100k'', maxrate = ''107k'', bufsize = ''150k'',
            file' = ''120p.m3u8'', name = ''120'', segments = ''120p_%03d.ts''\<rparr>,
           \<lparr>resolution = ''240x135'', bitrate = ''200k'', maxrate = ''214k'', bufsize = ''300k'',
            file' = ''240p.m3u8'', name = ''240'', segments = ''240p_%03d.ts''\<rparr>,
           \<lparr>resolution = ''640x360'', bitrate = ''800k'', maxrate = ''856k'', bufsize = ''1200k'',
            file' = ''360p.m3u8'', name = ''360'', segments = ''360p_%03d.ts''\<rparr>,
           \<lparr>resolution = ''854x480'', bitrate = ''1400k'', maxrate = ''1498k'', bufsize = ''2100k'',
            file' = ''480p.m3u8'', name = ''480'', segments = ''480p_%03d.ts''\<rparr>,
           \<lparr>resolution = ''1280x720'', bitrate = ''2800k'', maxrate = ''2996k'', bufsize = ''4200k'',
            file' = ''720p.m3u8'', name = ''720'', segments = ''720p_%03d.ts''\<rparr> ]
   \<and> resolveQuality defaultQuality (Some []) = resolveQuality defaultQuality None"
  by (simp add: resolveQuality_def chooseResolution_def defaultResolution_def defaultQuality_def)


section \<open>Resolving requested names\<close>

text \<open>
  C4.  For a catalog whose names are pairwise different and a non-empty list of
  requested names each of which is the name of a profile of the catalog, subset
  resolution succeeds.  Its result is the catalog filtered by membership of the name in
  the request: exactly the profiles whose name was requested, every requested name
  represented, in the order of the catalog (a subsequence of it, whatever the order of
  the request), and no profile and no name twice, also when the request repeats a name.
  That the fields of the profiles are non-empty is not needed.
\<close>

theorem resolve_requested_subset:
  assumes "distinct (map name quality)"
    and "names \<noteq> []"
    and "\<forall>r\<in>set names. \<exists>q\<in>set quality. r = Item (JString (name q))"
  shows "\<exists>fq. resolveQuality quality (Some names) = Inr fq \<and>
           fq = filter (\<lambda>q. Item (JString (name q)) \<in> set names) quality \<and>
           set fq = {q \<in> set quality. Item (JString (name q)) \<in> set names} \<and>
           (\<lambda>q. Item (JString (name q))) ` set fq = set names \<and>
           subseq fq quality \<and> distinct fq \<and> distinct (map name fq)"
proof -
  let ?fq = "filter (\<lambda>q. Item (JString (name q)) \<in> set names) quality"
  have cr: "chooseResolution (Some names) = names"
    using assms(2) by (simp add: chooseResolution_def)
  have it: "\<forall>v\<in>set (items names). \<exists>q\<in>set quality. JString (name q) = v"
    using assms(3) by (fastforce simp: items_set)
  then have str: "list_all isString (items names)"
    by (auto simp: list_all_iff)
  from assms(2) obtain x xs where nx: "names = x # xs" by (cases names) auto
  with assms(3) have "x \<noteq> Hole" by auto
  with nx have ne: "items names \<noteq> []" by (cases x) simp_all
  have same: "filter (\<lambda>q. JString (name q) \<in> set (map readSlot names)) quality = ?fq"
    by (rule filter_cong[OF refl]) (simp add: readSlot_string items_set)
  have res: "resolveQuality quality (Some names) = Inr ?fq"
    using resolveQuality_matched[of "Some names" quality] str it ne
    unfolding cr same by simp
  have dq: "distinct quality" using assms(1) by (rule distinct_map[THEN iffD1, THEN conjunct1])
  have "(\<lambda>q. Item (JString (name q))) ` set ?fq = set names"
    using assms(3) by force
  moreover have "distinct (map name ?fq)"
    using assms(1) by (simp add: distinct_map_filter)
  moreover have "distinct ?fq" using dq by simp
  moreover have "subseq ?fq quality" by simp
  ultimately show ?thesis using res by auto
qed

theorem resolve_requested_subset_witness:
  "\<exists>fq. resolveQuality defaultQuality
           (Some [Item (JString ''720''), Item (JString ''360''), Item (JString ''720'')]) = Inr fq \<and>
         map name fq = [''360'', ''720'']"
proof -
  have h1: "distinct (map name defaultQuality)" by (simp add: defaultQuality_def)
  have h2: "[Item (JString ''720''), Item (JString ''360''), Item (JString ''720'')] \<noteq> []" by simp
  have h3: "\<forall>r\<in>set [Item (JString ''720''), Item (JString ''360''), Item (JString ''720'')].
              \<exists>q\<in>set defaultQuality. r = Item (JString (name q))"
    by (simp add: defaultQuality_def)
  from resolve_requested_subset[OF h1 h2 h3] obtain fq where
    r: "resolveQuality defaultQuality
          (Some [Item (JString ''720''), Item (JString ''360''), Item (JString ''720'')]) = Inr fq"
    and f: "fq = filter (\<lambda>q. Item (JString (name q)) \<in>
                     set [Item (JString ''720''), Item (JString ''360''), Item (JString ''720'')])
                   defaultQuality"
    by blast
  have "map name fq = [''360'', ''720'']" unfolding f by (simp add: defaultQuality_def)
  with r show ?thesis by simp
qed

text \<open>
  C6, as the source has it.  For a non-empty request: if every element is a string and
  some element is the name of no profile, resolution fails with the error of line 135
  for such a name \<open>s\<close>, whose message ends with the names of all profiles of the
  catalog joined by a comma and a space; every name of the catalog occurs in that list.
  If some element is not a string, resolution fails with the rejection of line 126,
  whose message names no profile, whether or not another element is the name of no
  profile.  Elements are the slots that are not holes.
\<close>

theorem resolve_invalid_request:
  assumes "names \<noteq> []"
  shows "((\<forall>v. Item v \<in> set names \<longrightarrow> isString v) \<and>
          (\<exists>v. Item v \<in> set names \<and> (\<forall>q\<in>set quality. JString (name q) \<noteq> v)) \<longrightarrow>
           (\<exists>s. Item (JString s) \<in> set names \<and> s \<notin> name ` set quality \<and>
                resolveQuality quality (Some names) =
                  Inl (InvalidRequest
                    (''Invalid resolution name: '' @ s @
                     ''. It does not match any quality name. Valid names are '' @
                     join '', '' (map name quality) @ ''.'')) \<and>
                (\<forall>q\<in>set quality. sublist (name q) (join '', '' (map name quality))))) \<and>
         ((\<exists>v. Item v \<in> set names \<and> \<not> isString v) \<longrightarrow>
            resolveQuality quality (Some names) =
              Inl (InvalidRequest ''All elements in the resolution array must be strings.''))"
proof -
  have cr: "chooseResolution (Some names) = names"
    using assms by (simp add: chooseResolution_def)
  have enum: "\<forall>q\<in>set quality. sublist (name q) (join '', '' (map name quality))"
    by (simp add: sublist_join)
  have A: "\<exists>s. Item (JString s) \<in> set names \<and> s \<notin> name ` set quality \<and>
             resolveQuality quality (Some names) = Inl (InvalidRequest (noMatchMessage quality s))"
    if "\<forall>v. Item v \<in> set names \<longrightarrow> isString v"
       "\<exists>v. Item v \<in> set names \<and> (\<forall>q\<in>set quality. JString (name q) \<noteq> v)"
  proof -
    from that(1) have s: "list_all isString (items (chooseResolution (Some names)))"
      unfolding cr by (simp add: list_all_iff items_set)
    from that(2) have u: "\<exists>r\<in>set (items (chooseResolution (Some names))).
                            \<forall>q\<in>set quality. JString (name q) \<noteq> r"
      unfolding cr by (simp add: items_set Bex_def)
    from resolveQuality_unmatched[OF s u]
    obtain pre s' post where
      h: "items names = pre @ JString s' # post" "s' \<notin> name ` set quality"
      "resolveQuality quality (Some names) = Inl (InvalidRequest (noMatchMessage quality s'))"
      unfolding cr by blast
    from h(1) have "JString s' \<in> set (items names)" by simp
    then have "Item (JString s') \<in> set names" by (simp add: items_set)
    with h(2,3) show ?thesis by (intro exI[of _ s']) simp
  qed
  have B: "resolveQuality quality (Some names) =
             Inl (InvalidRequest ''All elements in the resolution array must be strings.'')"
    if "\<exists>v. Item v \<in> set names \<and> \<not> isString v"
  proof -
    from that have "\<not> list_all isString (items (chooseResolution (Some names)))"
      unfolding cr by (auto simp: list_all_iff items_set)
    then show ?thesis by (rule resolveQuality_not_strings)
  qed
  show ?thesis using A B enum unfolding noMatchMessage_def by blast
qed

theorem resolve_invalid_request_witness:
  "resolveQuality defaultQuality (Some [Item (JString ''360''), Item (JString ''999'')]) =
     Inl (InvalidRequest
       ''Invalid resolution name: 999. It does not match any quality name. Valid names are 120, 160, 240, 180, 240w, 270, 360, 480, 540, 720, 1080, 1440, 2160.'') \<and>
   resolveQuality defaultQuality (Some [Item (JString ''360''), Item (JNumber 5)]) =
     Inl (InvalidRequest ''All elements in the resolution array must be strings.'')"
proof -
  have n1: "[Item (JString ''360''), Item (JString ''999'')] \<noteq> []"
    and n2: "[Item (JString ''360''), Item (JNumber 5)] \<noteq> []"
    by simp_all
  have a: "(\<forall>v. Item v \<in> set [Item (JString ''360''), Item (JString ''999'')] \<longrightarrow> isString v) \<and>
           (\<exists>v. Item v \<in> set [Item (JString ''360''), Item (JString ''999'')] \<and>
                (\<forall>q\<in>set defaultQuality. JString (name q) \<noteq> v))"
    by (auto simp: defaultQuality_def)
  from resolve_invalid_request[OF n1, of defaultQuality, THEN conjunct1, rule_format, OF a]
  obtain s where s: "Item (JString s) \<in> set [Item (JString ''360''), Item (JString ''999'')]"
    "s \<notin> name ` set defaultQuality"
    "resolveQuality defaultQuality (Some [Item (JString ''360''), Item (JString ''999'')]) =
       Inl (InvalidRequest (''Invalid resolution name: '' @ s @
         ''. It does not match any quality name. Valid names are '' @
         join '', '' (map name defaultQuality) @ ''.''))"
    by blast
  from s(1,2) have "s = ''999''" by (auto simp: defaultQuality_def)
  with s(3) have first:
    "resolveQuality defaultQuality (Some [Item (JString ''360''), Item (JString ''999'')]) =
     Inl (InvalidRequest
       ''Invalid resolution name: 999. It does not match any quality name. Valid names are 120, 160, 240, 180, 240w, 270, 360, 480, 540, 720, 1080, 1440, 2160.'')"
    by (simp add: defaultQuality_def)
  have b: "\<exists>v. Item v \<in> set [Item (JString ''360''), Item (JNumber 5)] \<and> \<not> isString v"
    by (intro exI[of _ "JNumber 5"]) simp
  note second = resolve_invalid_request[OF n2, of defaultQuality, THEN conjunct2, rule_format, OF b]
  from first second show ?thesis by (rule conjI)
qed

text \<open>
  C6 as it is worded gives the message that lists the valid names to every non-empty
  request that contains a name of no profile.  The request \<^verbatim>\<open>['999', null]\<close> contains
  the name 999 of no profile; the test of line 125 comes first and the call fails with
  the message of line 126, in which the name 120 of the first profile does not occur.
\<close>

theorem mixed_request_counterexample:
  "outcome (hlsConvert examplePlatform exampleConverter exampleFiles ''input.mp4''
      (Some [Item (JString ''999''), Item JNull]) None None) =
     Inl (InvalidRequest ''All elements in the resolution array must be strings.'') \<and>
   resolveQuality defaultQuality (Some [Item (JString ''999''), Item JNull]) =
     Inl (InvalidRequest ''All elements in the resolution array must be strings.'') \<and>
   \<not> sublist ''120'' ''All elements in the resolution array must be strings.''"
proof -
  have r: "resolveQuality defaultQuality (Some [Item (JString ''999''), Item JNull]) =
     Inl (InvalidRequest ''All elements in the resolution array must be strings.'')"
    by (simp add: resolveQuality_def chooseResolution_def)
  have c: "outcome (hlsConvert examplePlatform exampleConverter exampleFiles ''input.mp4''
      (Some [Item (JString ''999''), Item JNull]) None None) =
     Inl (InvalidRequest ''All elements in the resolution array must be strings.'')"
    by (simp add: hlsConvert_def initialQuality_def convertWith_unresolved[OF r])
  have n: "\<not> sublist ''120'' ''All elements in the resolution array must be strings.''"
    by (simp add: sublist_code)
  from c r n show ?thesis by (intro conjI)
qed


section \<open>The empty selection\<close>

text \<open>
  C9, as the source has it.  Subset resolution fails with the rejection of line 145
  exactly when the request is an array of positive length all of whose slots are holes,
  such as \<^verbatim>\<open>new Array(1)\<close>: \<^verbatim>\<open>some\<close> and \<^verbatim>\<open>forEach\<close> skip the holes, so no
  check fails, and the filter keeps nothing.  The catalog plays no part in this.  When
  the request in effect has an element and every element passed the loop of lines 130
  to 137, the result is a non-empty list.  When the catalog is empty and the request in
  effect has an element, the failure is the one of an invalid request.
\<close>

theorem empty_selection_only_holes:
  "(resolveQuality quality ra = Inl EmptySelection) =
     (\<exists>hs. ra = Some hs \<and> hs \<noteq> [] \<and> (\<forall>x\<in>set hs. x = Hole)) \<and>
   ((\<exists>v. Item v \<in> set (chooseResolution ra)) \<and>
    checkNames quality (items (chooseResolution ra)) = Inr () \<longrightarrow>
      (\<exists>fq. resolveQuality quality ra = Inr fq \<and> fq \<noteq> [])) \<and>
   (quality = [] \<and> (\<exists>v. Item v \<in> set (chooseResolution ra)) \<longrightarrow>
      (\<exists>m. resolveQuality quality ra = Inl (InvalidRequest m)))"
proof (intro conjI impI)
  show "(resolveQuality quality ra = Inl EmptySelection) =
     (\<exists>hs. ra = Some hs \<and> hs \<noteq> [] \<and> (\<forall>x\<in>set hs. x = Hole))"
    by (simp only: resolveQuality_empty_iff items_chosen_empty)
next
  assume a: "(\<exists>v. Item v \<in> set (chooseResolution ra)) \<and>
    checkNames quality (items (chooseResolution ra)) = Inr ()"
  then have ne: "items (chooseResolution ra) \<noteq> []" by (auto simp: items_empty)
  from a checkNames_Inr[of quality "items (chooseResolution ra)"] have
    s: "list_all isString (items (chooseResolution ra))" and
    m: "\<forall>r\<in>set (items (chooseResolution ra)). \<exists>q\<in>set quality. JString (name q) = r" by auto
  show "\<exists>fq. resolveQuality quality ra = Inr fq \<and> fq \<noteq> []"
    using resolveQuality_matched[OF s m ne] filter_nonempty[OF ne m] by simp
next
  assume a: "quality = [] \<and> (\<exists>v. Item v \<in> set (chooseResolution ra))"
  then obtain v where v: "v \<in> set (items (chooseResolution ra))" by (auto simp: items_set)
  show "\<exists>m. resolveQuality quality ra = Inl (InvalidRequest m)"
  proof (cases "list_all isString (items (chooseResolution ra))")
    case False
    then show ?thesis by (simp add: resolveQuality_not_strings)
  next
    case True
    from v a have "\<exists>r\<in>set (items (chooseResolution ra)). \<forall>q\<in>set quality. JString (name q) \<noteq> r"
      by auto
    from resolveQuality_unmatched[OF True this] show ?thesis by blast
  qed
qed

theorem empty_selection_only_holes_witness:
  "resolveQuality defaultQuality (Some [Hole]) = Inl EmptySelection \<and>
   (\<exists>fq. resolveQuality defaultQuality None = Inr fq \<and> fq \<noteq> []) \<and>
   (\<exists>m. resolveQuality [] None = Inl (InvalidRequest m))"
proof -
  have a: "\<exists>hs. Some [Hole] = Some hs \<and> hs \<noteq> [] \<and> (\<forall>x\<in>set hs. x = Hole)" by simp
  have b: "(\<exists>v. Item v \<in> set (chooseResolution None)) \<and>
           checkNames defaultQuality (items (chooseResolution None)) = Inr ()"
    by (auto simp: defaultQuality_def chooseResolution_def defaultResolution_def)
  have c: "[] = ([]::Quality list) \<and> (\<exists>v. Item v \<in> set (chooseResolution None))"
    by (auto simp: chooseResolution_def defaultResolution_def)
  note one = empty_selection_only_holes[where quality = defaultQuality and ra = "Some [Hole]",
      THEN conjunct1, THEN iffD2, OF a]
  note two = empty_selection_only_holes[where quality = defaultQuality and ra = None,
      THEN conjunct2, THEN conjunct1, rule_format, OF b]
  note three = empty_selection_only_holes[where quality = "[]" and ra = None,
      THEN conjunct2, THEN conjunct2, rule_format, OF c]
  from one two three show ?thesis by (intro conjI)
qed

text \<open>
  C9 as it is worded takes the rejection of line 145 to be reached only with an empty
  catalog, and never with a non-empty catalog when every requested name passed the
  check.  The call with the request \<^verbatim>\<open>new Array(1)\<close> works on the built-in ladder, no
  name fails the check, and the call is rejected at line 145.  The call with a custom
  catalog and no request works on the empty catalog, the resolved set would be empty,
  and the failure is the one for the name 120.
\<close>

theorem empty_selection_counterexample:
  "outcome (hlsConvert examplePlatform exampleConverter exampleFiles ''input.mp4''
      (Some [Hole]) None None) = Inl EmptySelection \<and>
   initialQuality None \<noteq> [] \<and>
   checkNames (initialQuality None) (items [Hole]) = Inr () \<and>
   outcome (hlsConvert examplePlatform exampleConverter exampleFiles ''input.mp4''
      None None (Some customQualities)) =
     Inl (InvalidRequest
       ''Invalid resolution name: 120. It does not match any quality name. Valid names are .'') \<and>
   initialQuality (Some customQualities) = [] \<and>
   resolveQuality [] None =
     Inl (InvalidRequest
       ''Invalid resolution name: 120. It does not match any quality name. Valid names are .'')"
proof -
  have h: "resolveQuality (initialQuality None) (Some [Hole]) = Inl EmptySelection"
    by (simp add: resolveQuality_def chooseResolution_def)
  have e: "resolveQuality [] None =
     Inl (InvalidRequest
       ''Invalid resolution name: 120. It does not match any quality name. Valid names are .'')"
    by (simp add: resolveQuality_def chooseResolution_def defaultResolution_def noMatchMessage_def)
  have i: "initialQuality (Some customQualities) = []"
    by (simp add: initialQuality_def customQualities_def)
  have n: "initialQuality None \<noteq> []" by (simp add: initialQuality_def defaultQuality_def)
  have c1: "outcome (hlsConvert examplePlatform exampleConverter exampleFiles ''input.mp4''
      (Some [Hole]) None None) = Inl EmptySelection"
    by (simp add: hlsConvert_def convertWith_unresolved[OF h])
  have c2: "outcome (hlsConvert examplePlatform exampleConverter exampleFiles ''input.mp4''
      None None (Some customQualities)) =
     Inl (InvalidRequest
       ''Invalid resolution name: 120. It does not match any quality name. Valid names are .'')"
    using e by (simp add: hlsConvert_def i convertWith_unresolved)
  have k: "checkNames (initialQuality None) (items [Hole]) = Inr ()" by simp
  from c1 n k c2 i e show ?thesis by (intro conjI)
qed


section \<open>Catalog validation\<close>

text \<open>
  C2, the part that holds by the design of the source.  The only check of the catalog is
  the test of line 109 on the seven fields of each profile; nothing compares the names
  of two profiles.  For every catalog whose profiles all have their seven fields,
  whether or not two of them share a name, the check builds no rejection and the call
  does not fail with the error of an invalid profile, neither when the catalog is the
  one the rest of the function works on nor when it is passed as \<^verbatim>\<open>qualityArray\<close>.
  What happens to a profile with an empty field is left out of this statement.
\<close>

theorem catalog_check_accepts_shared_names:
  assumes "\<forall>q\<in>set quality. \<not> missingField q"
  shows "discarded (convertWith quality pf this fs f ra vid) = [] \<and>
         outcome (convertWith quality pf this fs f ra vid) \<noteq> Inl InvalidProfile \<and>
         outcome (hlsConvert pf this fs f ra vid (Some quality)) \<noteq> Inl InvalidProfile"
  using assms
  by (simp add: discarded_convertWith checkFields_none convertWith_not_profile hlsConvert_def)

theorem catalog_check_accepts_shared_names_witness:
  "discarded (convertWith twoProfilesOneName examplePlatform exampleConverter exampleFiles
       ''input.mp4'' (Some [Item (JString ''360'')]) None) = [] \<and>
   outcome (convertWith twoProfilesOneName examplePlatform exampleConverter exampleFiles
       ''input.mp4'' (Some [Item (JString ''360'')]) None) \<noteq> Inl InvalidProfile \<and>
   outcome (hlsConvert examplePlatform exampleConverter exampleFiles
       ''input.mp4'' (Some [Item (JString ''360'')]) None (Some twoProfilesOneName)) \<noteq> Inl InvalidProfile"
proof -
  have h: "\<forall>q\<in>set twoProfilesOneName. \<not> missingField q"
    by (simp add: twoProfilesOneName_def missingField_def)
  show ?thesis by (rule catalog_check_accepts_shared_names[OF h])
qed

text \<open>
  C2 as it is worded says that a catalog in which two profiles share a name makes the
  call fail with the error of an invalid profile before any job is started.  The
  catalog below has two profiles named 360.  Passed as \<^verbatim>\<open>qualityArray\<close> it leads to
  the failure for the requested name 360; taken as the catalog in effect, the call
  succeeds and a job is started for each of the two profiles.
\<close>

theorem shared_name_counterexample:
  "\<not> distinct (map name twoProfilesOneName) \<and>
   outcome (hlsConvert examplePlatform exampleConverter exampleFiles ''input.mp4''
       (Some [Item (JString ''360'')]) None (Some twoProfilesOneName)) =
     Inl (InvalidRequest
       ''Invalid resolution name: 360. It does not match any quality name. Valid names are .'') \<and>
   outcome (convertWith twoProfilesOneName examplePlatform exampleConverter exampleFiles
       ''input.mp4'' (Some [Item (JString ''360'')]) None) = Inr () \<and>
   launched (convertWith twoProfilesOneName examplePlatform exampleConverter exampleFiles
       ''input.mp4'' (Some [Item (JString ''360'')]) None) = twoProfilesOneName"
proof -
  have r: "resolveQuality twoProfilesOneName (Some [Item (JString ''360'')]) = Inr twoProfilesOneName"
    by (simp add: resolveQuality_def chooseResolution_def twoProfilesOneName_def)
  have a: "\<not> distinct (map name twoProfilesOneName)" by (simp add: twoProfilesOneName_def)
  have d: "checkFields twoProfilesOneName = []"
    by (simp add: checkFields_def twoProfilesOneName_def missingField_def)
  have b: "outcome (hlsConvert examplePlatform exampleConverter exampleFiles ''input.mp4''
       (Some [Item (JString ''360'')]) None (Some twoProfilesOneName)) =
     Inl (InvalidRequest
       ''Invalid resolution name: 360. It does not match any quality name. Valid names are .'')"
    by (simp add: hlsConvert_def convertWith_def initialQuality_def twoProfilesOneName_def
        resolveQuality_def chooseResolution_def noMatchMessage_def)
  have c: "outcome (convertWith twoProfilesOneName examplePlatform exampleConverter exampleFiles
       ''input.mp4'' (Some [Item (JString ''360'')]) None) = Inr () \<and>
   launched (convertWith twoProfilesOneName examplePlatform exampleConverter exampleFiles
       ''input.mp4'' (Some [Item (JString ''360'')]) None) = twoProfilesOneName"
    by (simp add: convertWith_def r d examplePlatform_def exampleConverter_def exampleFiles_def
        newVideoConverter_def ensureDir_def writeFileSync_def cleanUp_def uniqueOutputPath_def
        masterPlaylistPath_def Let_def list_all_iff)
  from a b c show ?thesis by (intro conjI) simp_all
qed

text \<open>
  For the record, the other half of C2: a profile with an empty field, taken as the
  catalog in effect.  The check of line 109 builds the rejection of line 110 and the
  callback of \<^verbatim>\<open>forEach\<close> returns it to nobody; the call is not rejected and goes on
  to start the job.  Where the process ends on an unhandled rejection it ends while
  the function waits at line 166, and no master playlist is written; where it goes on,
  the call succeeds.
\<close>

lemma empty_field_not_rejected:
  "missingField (hd emptyBitrate) \<and>
   outcome (convertWith emptyBitrate examplePlatform exampleConverter exampleFiles
       ''input.mp4'' (Some [Item (JString ''360'')]) None) = Inl NeverSettled \<and>
   launched (convertWith emptyBitrate examplePlatform exampleConverter exampleFiles
       ''input.mp4'' (Some [Item (JString ''360'')]) None) = emptyBitrate \<and>
   discarded (convertWith emptyBitrate examplePlatform exampleConverter exampleFiles
       ''input.mp4'' (Some [Item (JString ''360'')]) None) = [InvalidProfile] \<and>
   written (fileSystem (convertWith emptyBitrate examplePlatform exampleConverter exampleFiles
       ''input.mp4'' (Some [Item (JString ''360'')]) None)) ''output/run-1/master.m3u8'' = None \<and>
   outcome (convertWith emptyBitrate (examplePlatform\<lparr>exitsOnUnhandledRejection := False\<rparr>)
       exampleConverter exampleFiles ''input.mp4'' (Some [Item (JString ''360'')]) None) = Inr ()"
proof -
  have r: "resolveQuality emptyBitrate (Some [Item (JString ''360'')]) = Inr emptyBitrate"
    by (simp add: resolveQuality_def chooseResolution_def emptyBitrate_def)
  have m: "missingField (hd emptyBitrate)" by (simp add: emptyBitrate_def missingField_def)
  have d: "checkFields emptyBitrate = [InvalidProfile]"
    by (simp add: checkFields_def emptyBitrate_def missingField_def)
  have c: "outcome (convertWith emptyBitrate examplePlatform exampleConverter exampleFiles
       ''input.mp4'' (Some [Item (JString ''360'')]) None) = Inl NeverSettled \<and>
   launched (convertWith emptyBitrate examplePlatform exampleConverter exampleFiles
       ''input.mp4'' (Some [Item (JString ''360'')]) None) = emptyBitrate \<and>
   written (fileSystem (convertWith emptyBitrate examplePlatform exampleConverter exampleFiles
       ''input.mp4'' (Some [Item (JString ''360'')]) None)) ''output/run-1/master.m3u8'' = None"
    by (simp add: convertWith_def r d examplePlatform_def exampleConverter_def exampleFiles_def
        newVideoConverter_def ensureDir_def uniqueOutputPath_def Let_def)
  have g: "outcome (convertWith emptyBitrate (examplePlatform\<lparr>exitsOnUnhandledRejection := False\<rparr>)
       exampleConverter exampleFiles ''input.mp4'' (Some [Item (JString ''360'')]) None) = Inr ()"
    by (simp add: convertWith_def r d examplePlatform_def exampleConverter_def exampleFiles_def
        newVideoConverter_def ensureDir_def writeFileSync_def cleanUp_def uniqueOutputPath_def
        masterPlaylistPath_def Let_def list_all_iff)
  from m c d g show ?thesis by (simp add: discarded_convertWith)
qed


section \<open>The order of the validations\<close>

text \<open>
  C3, as the source has it.  The validations run in the order of lines 114 to 163:
  subset resolution first, then the test that the file name is non-empty, then the
  existence of the source file, then the preparation of the output directory; the first
  violation decides the failure.  A failure of subset resolution is the failure of the
  call, whatever the file name and the file system; with the names resolved, an empty
  file name fails before the file system is looked at; with a file name, a missing
  source fails before any directory is made; with the source present, a base directory
  that cannot be made fails the call.  So a call with an empty file name and a
  non-empty request that contains a name of no profile fails with the error of an
  invalid request.
\<close>

theorem validation_order:
  "(resolveQuality (initialQuality qa) ra = Inl e \<longrightarrow>
      outcome (hlsConvert pf this fs f ra vid qa) = Inl e) \<and>
   (resolveQuality (initialQuality qa) ra = Inr fq \<and> f = [] \<longrightarrow>
      outcome (hlsConvert pf this fs f ra vid qa) = Inl MissingFileName) \<and>
   (resolveQuality (initialQuality qa) ra = Inr fq \<and> f \<noteq> [] \<and>
    pathJoin pf (inputFolder this) f \<notin> existing fs \<longrightarrow>
      outcome (hlsConvert pf this fs f ra vid qa) =
        Inl (SourceNotFound (pathJoin pf (inputFolder this) f))) \<and>
   (resolveQuality (initialQuality qa) ra = Inr fq \<and> f \<noteq> [] \<and>
    pathJoin pf (inputFolder this) f \<in> existing fs \<and>
    outputPath this \<notin> existing fs \<and> outputPath this \<in> denied pf \<longrightarrow>
      outcome (hlsConvert pf this fs f ra vid qa) = Inl (IOFailure (outputPath this))) \<and>
   (f = [] \<and> ra = Some names \<and> names \<noteq> [] \<and>
    (\<exists>v. Item v \<in> set names \<and> (\<forall>q\<in>set (initialQuality qa). JString (name q) \<noteq> v)) \<longrightarrow>
      (\<exists>m. outcome (hlsConvert pf this fs f ra vid qa) = Inl (InvalidRequest m)))"
proof (intro conjI impI)
  assume "resolveQuality (initialQuality qa) ra = Inl e"
  then show "outcome (hlsConvert pf this fs f ra vid qa) = Inl e"
    by (simp add: hlsConvert_def convertWith_unresolved)
next
  assume "resolveQuality (initialQuality qa) ra = Inr fq \<and> f = []"
  then show "outcome (hlsConvert pf this fs f ra vid qa) = Inl MissingFileName"
    by (simp add: hlsConvert_def convertWith_no_file_name)
next
  assume "resolveQuality (initialQuality qa) ra = Inr fq \<and> f \<noteq> [] \<and>
    pathJoin pf (inputFolder this) f \<notin> existing fs"
  then show "outcome (hlsConvert pf this fs f ra vid qa) =
        Inl (SourceNotFound (pathJoin pf (inputFolder this) f))"
    by (simp add: hlsConvert_def convertWith_source_missing)
next
  assume "resolveQuality (initialQuality qa) ra = Inr fq \<and> f \<noteq> [] \<and>
    pathJoin pf (inputFolder this) f \<in> existing fs \<and>
    outputPath this \<notin> existing fs \<and> outputPath this \<in> denied pf"
  then show "outcome (hlsConvert pf this fs f ra vid qa) = Inl (IOFailure (outputPath this))"
    by (simp add: hlsConvert_def convertWith_output_denied)
next
  assume a: "f = [] \<and> ra = Some names \<and> names \<noteq> [] \<and>
    (\<exists>v. Item v \<in> set names \<and> (\<forall>q\<in>set (initialQuality qa). JString (name q) \<noteq> v))"
  then have cr: "chooseResolution ra = names" by (simp add: chooseResolution_def)
  have "\<exists>m. resolveQuality (initialQuality qa) ra = Inl (InvalidRequest m)"
  proof (cases "list_all isString (items (chooseResolution ra))")
    case False
    then show ?thesis by (simp add: resolveQuality_not_strings)
  next
    case True
    from a cr have "\<exists>r\<in>set (items (chooseResolution ra)).
                      \<forall>q\<in>set (initialQuality qa). JString (name q) \<noteq> r"
      by (simp add: items_set Bex_def)
    from resolveQuality_unmatched[OF True this] show ?thesis by blast
  qed
  then show "\<exists>m. outcome (hlsConvert pf this fs f ra vid qa) = Inl (InvalidRequest m)"
    by (auto simp: hlsConvert_def convertWith_unresolved)
qed

theorem validation_order_witness:
  "(\<exists>m. outcome (hlsConvert examplePlatform exampleConverter exampleFiles []
           (Some [Item (JString ''999'')]) None None) = Inl (InvalidRequest m)) \<and>
   outcome (hlsConvert examplePlatform exampleConverter exampleFiles []
           (Some [Item (JString ''360''), Item (JNumber 5)]) None None) =
     Inl (InvalidRequest ''All elements in the resolution array must be strings.'') \<and>
   outcome (hlsConvert examplePlatform exampleConverter exampleFiles [] None None None) =
     Inl MissingFileName \<and>
   outcome (hlsConvert (examplePlatform\<lparr>denied := {''output''}\<rparr>) exampleConverter exampleFiles
           ''missing.mp4'' None None None) =
     Inl (SourceNotFound ''video/missing.mp4'') \<and>
   outcome (hlsConvert (examplePlatform\<lparr>denied := {''output''}\<rparr>) exampleConverter exampleFiles
           ''input.mp4'' None None None) =
     Inl (IOFailure ''output'')"
proof -
  let ?five = "filter (\<lambda>q. JString (name q) \<in> set (map readSlot defaultResolution)) defaultQuality"
  have ok: "resolveQuality (initialQuality None) None = Inr ?five"
    by (simp add: initialQuality_def resolveQuality_def chooseResolution_def defaultResolution_def
        defaultQuality_def)
  have bad: "resolveQuality (initialQuality None) (Some [Item (JString ''360''), Item (JNumber 5)]) =
               Inl (InvalidRequest ''All elements in the resolution array must be strings.'')"
    by (simp add: resolveQuality_def chooseResolution_def)
  have h5: "[] = ([]::string) \<and> Some [Item (JString ''999'')] = Some [Item (JString ''999'')] \<and>
            [Item (JString ''999'')] \<noteq> [] \<and>
            (\<exists>v. Item v \<in> set [Item (JString ''999'')] \<and>
                 (\<forall>q\<in>set (initialQuality None). JString (name q) \<noteq> v))"
    by (simp add: initialQuality_def defaultQuality_def)
  have h2: "resolveQuality (initialQuality None) None = Inr ?five \<and> [] = ([]::string)"
    using ok by simp
  have h3: "resolveQuality (initialQuality None) None = Inr ?five \<and> ''missing.mp4'' \<noteq> [] \<and>
            pathJoin (examplePlatform\<lparr>denied := {''output''}\<rparr>) (inputFolder exampleConverter)
              ''missing.mp4'' \<notin> existing exampleFiles"
    using ok by (simp add: examplePlatform_def exampleConverter_def exampleFiles_def
        newVideoConverter_def)
  have h4: "resolveQuality (initialQuality None) None = Inr ?five \<and> ''input.mp4'' \<noteq> [] \<and>
            pathJoin (examplePlatform\<lparr>denied := {''output''}\<rparr>) (inputFolder exampleConverter)
              ''input.mp4'' \<in> existing exampleFiles \<and>
            outputPath exampleConverter \<notin> existing exampleFiles \<and>
            outputPath exampleConverter \<in> denied (examplePlatform\<lparr>denied := {''output''}\<rparr>)"
    using ok by (simp add: examplePlatform_def exampleConverter_def exampleFiles_def
        newVideoConverter_def)
  note c5 = validation_order[where pf = examplePlatform and this = exampleConverter
      and fs = exampleFiles and f = "[]" and ra = "Some [Item (JString ''999'')]" and vid = None
      and qa = None and names = "[Item (JString ''999'')]",
      THEN conjunct2, THEN conjunct2, THEN conjunct2, THEN conjunct2, rule_format, OF h5]
  note c1 = validation_order[where pf = examplePlatform and this = exampleConverter
      and fs = exampleFiles and f = "[]" and ra = "Some [Item (JString ''360''), Item (JNumber 5)]"
      and vid = None and qa = None,
      THEN conjunct1, rule_format, OF bad]
  note c2 = validation_order[where pf = examplePlatform and this = exampleConverter
      and fs = exampleFiles and f = "[]" and ra = None and vid = None and qa = None,
      THEN conjunct2, THEN conjunct1, rule_format, OF h2]
  note c3 = validation_order[where pf = "examplePlatform\<lparr>denied := {''output''}\<rparr>"
      and this = exampleConverter and fs = exampleFiles and f = "''missing.mp4''" and ra = None
      and vid = None and qa = None,
      THEN conjunct2, THEN conjunct2, THEN conjunct1, rule_format, OF h3]
  note c4 = validation_order[where pf = "examplePlatform\<lparr>denied := {''output''}\<rparr>"
      and this = exampleConverter and fs = exampleFiles and f = "''input.mp4''" and ra = None
      and vid = None and qa = None,
      THEN conjunct2, THEN conjunct2, THEN conjunct2, THEN conjunct1, rule_format, OF h4]
  have p: "pathJoin (examplePlatform\<lparr>denied := {''output''}\<rparr>) (inputFolder exampleConverter)
              ''missing.mp4'' = ''video/missing.mp4''"
    "outputPath exampleConverter = ''output''"
    by (simp_all add: examplePlatform_def exampleConverter_def newVideoConverter_def)
  from c5 c1 c2 c3 c4 show ?thesis unfolding p by (intro conjI)
qed

text \<open>
  C3 as it is worded puts the test of the file name before subset resolution, so that
  an empty file name together with an unknown requested name would be reported as the
  missing file name.  For the empty file name and the request \<^verbatim>\<open>['999']\<close> the
  failure is the one for the name 999.
\<close>

theorem empty_file_name_counterexample:
  "outcome (hlsConvert examplePlatform exampleConverter exampleFiles [] (Some [Item (JString ''999'')]) None None) =
     Inl (InvalidRequest
       ''Invalid resolution name: 999. It does not match any quality name. Valid names are 120, 160, 240, 180, 240w, 270, 360, 480, 540, 720, 1080, 1440, 2160.'') \<and>
   outcome (hlsConvert examplePlatform exampleConverter exampleFiles [] (Some [Item (JString ''999'')]) None None) \<noteq>
     Inl MissingFileName"
  by (simp add: hlsConvert_def convertWith_def initialQuality_def defaultQuality_def
        resolveQuality_def chooseResolution_def noMatchMessage_def)


section \<open>A missing source file\<close>

text \<open>
  C7, as the source has it.  When the source file does not exist at the joined input
  path, the call fails, the file system is left exactly as it was (no directory is
  made, nothing is written or deleted) and no job is started.  When moreover the
  requested names resolve and the file name is non-empty, the failure is the one of
  line 153 for that path.
\<close>

theorem source_missing_no_effect:
  assumes "pathJoin pf (inputFolder this) f \<notin> existing fs"
  shows "(\<exists>e. outcome (hlsConvert pf this fs f ra vid qa) = Inl e) \<and>
         fileSystem (hlsConvert pf this fs f ra vid qa) = fs \<and>
         launched (hlsConvert pf this fs f ra vid qa) = [] \<and>
         (f \<noteq> [] \<and> (\<exists>fq. resolveQuality (initialQuality qa) ra = Inr fq) \<longrightarrow>
            outcome (hlsConvert pf this fs f ra vid qa) =
              Inl (SourceNotFound (pathJoin pf (inputFolder this) f)))"
proof -
  from convertWith_failed_early[OF assms, of "initialQuality qa" ra vid]
  obtain e where "hlsConvert pf this fs f ra vid qa = stopped (checkFields (initialQuality qa)) e fs"
    unfolding hlsConvert_def by blast
  then have "(\<exists>e. outcome (hlsConvert pf this fs f ra vid qa) = Inl e) \<and>
         fileSystem (hlsConvert pf this fs f ra vid qa) = fs \<and>
         launched (hlsConvert pf this fs f ra vid qa) = []" by simp
  moreover have "outcome (hlsConvert pf this fs f ra vid qa) =
              Inl (SourceNotFound (pathJoin pf (inputFolder this) f))"
    if "f \<noteq> []" "\<exists>fq. resolveQuality (initialQuality qa) ra = Inr fq"
    using that assms by (auto simp: hlsConvert_def convertWith_source_missing)
  ultimately show ?thesis by blast
qed

theorem source_missing_no_effect_witness:
  "(\<exists>e. outcome (hlsConvert examplePlatform exampleConverter exampleFiles ''missing.mp4''
            None None None) = Inl e) \<and>
   fileSystem (hlsConvert examplePlatform exampleConverter exampleFiles ''missing.mp4''
            None None None) = exampleFiles \<and>
   launched (hlsConvert examplePlatform exampleConverter exampleFiles ''missing.mp4''
            None None None) = [] \<and>
   outcome (hlsConvert examplePlatform exampleConverter exampleFiles ''missing.mp4''
            None None None) = Inl (SourceNotFound ''video/missing.mp4'')"
proof -
  have h: "pathJoin examplePlatform (inputFolder exampleConverter) ''missing.mp4'' \<notin>
             existing exampleFiles"
    by (simp add: examplePlatform_def exampleConverter_def exampleFiles_def newVideoConverter_def)
  have p: "pathJoin examplePlatform (inputFolder exampleConverter) ''missing.mp4'' =
             ''video/missing.mp4''"
    by (simp add: examplePlatform_def exampleConverter_def newVideoConverter_def)
  have r: "''missing.mp4'' \<noteq> [] \<and> (\<exists>fq. resolveQuality (initialQuality None) None = Inr fq)"
    by (simp add: initialQuality_def resolveQuality_def chooseResolution_def defaultResolution_def
        defaultQuality_def)
  note t = source_missing_no_effect[OF h, where ra = None and vid = None and qa = None]
  from t[THEN conjunct1] t[THEN conjunct2, THEN conjunct1]
    t[THEN conjunct2, THEN conjunct2, THEN conjunct1]
    t[THEN conjunct2, THEN conjunct2, THEN conjunct2, rule_format, OF r]
  show ?thesis unfolding p by (intro conjI)
qed

text \<open>
  C7 as it is worded gives the failure of line 153 to every call whose source file
  does not exist.  For the missing file \<^verbatim>\<open>missing.mp4\<close> and the request
  \<^verbatim>\<open>['999']\<close> the failure is the one for the name 999, raised before the file
  system is looked at.
\<close>

theorem source_missing_counterexample:
  "pathJoin examplePlatform (inputFolder exampleConverter) ''missing.mp4'' \<notin> existing exampleFiles \<and>
   outcome (hlsConvert examplePlatform exampleConverter exampleFiles ''missing.mp4''
      (Some [Item (JString ''999'')]) None None) =
     Inl (InvalidRequest
       ''Invalid resolution name: 999. It does not match any quality name. Valid names are 120, 160, 240, 180, 240w, 270, 360, 480, 540, 720, 1080, 1440, 2160.'')"
  by (simp add: hlsConvert_def convertWith_def initialQuality_def defaultQuality_def
        resolveQuality_def chooseResolution_def noMatchMessage_def
        examplePlatform_def exampleConverter_def exampleFiles_def newVideoConverter_def)


section \<open>The master manifest\<close>




section \<open>The bandwidth of a profile\<close>


text \<open>
  What line 231 computes for this profile, and what it computes for the profiles that
  do reach it: every profile of the catalog in effect has a bit rate in kilobit
  notation, so its bandwidth is a number.
\<close>

lemma word_bitrate_stream_line:
  "streamInf (hd wordBitrate) = ''#EXT-X-STREAM-INF:BANDWIDTH=NaN,RESOLUTION=640x360''"
  by (simp add: streamInf_def wordBitrate_def parseInt_def unsignedPart_def hexPrefix_def
      isWhiteSpace_def isDigit_def digitValue_def)

lemma hlsConvert_bandwidth_is_number:
  assumes "q \<in> set (initialQuality qa)"
  shows "\<exists>n. parseInt (bitrate q) = Num (int n) \<and>
             streamInf q =
               ''#EXT-X-STREAM-INF:BANDWIDTH='' @ decimal (n * 1000) @
               '',RESOLUTION='' @ resolution q"
proof -
  from initialQuality_kilobit[OF assms] obtain n where
    k: "kilobitNotation (bitrate q) = Some n" by blast
  from parseInt_kilobit[OF k] streamInf_kilobit[OF k] show ?thesis by blast
qed

end
